theory Spec2Isabelle
  imports Complex_Main
begin

section \<open>gorpn: the RPN expression simplifier of eval.go\<close>

text \<open>
  A shallow embedding of the evaluator (\<^verbatim>\<open>Expression\<close>, \<^verbatim>\<open>simplify\<close>,
  \<^verbatim>\<open>Evaluate\<close>, \<^verbatim>\<open>Partial\<close>, \<^verbatim>\<open>String\<close>, \<^verbatim>\<open>New\<close>) with the operator
  table \<^verbatim>\<open>arity\<close> that lists \<^verbatim>\<open>MAD\<close>, \<^verbatim>\<open>PERCENT\<close>, \<^verbatim>\<open>POW\<close> and \<^verbatim>\<open>TREND\<close>.

  Go values of type \<^verbatim>\<open>interface{}\<close> become the datatype \<open>val\<close>; the receiver's
  fields become the record \<open>Expression\<close>, and a method with a pointer receiver returns
  the receiver as it leaves it. A run-time panic (index out of range, failed type
  assertion, negative capacity) is the error value \<open>Panic\<close>.
\<close>

subsection \<open>float64\<close>

text \<open>
  A \<^verbatim>\<open>float64\<close> is NaN, one of the two infinities, or a finite number. Finite numbers
  are carried as reals: the two zeros are one value and finite arithmetic is exact, so
  rounding and overflow of finite results are outside this model. Every case
  distinction the evaluator makes (NaN, infinity, sign, zero, comparison) is inside it.
\<close>

datatype f64 = NaN | PInf | NInf | Fin real

definition IsNaN :: "f64 \<Rightarrow> bool" where
  "IsNaN f = (f = NaN)"

definition IsInf :: "f64 \<Rightarrow> int \<Rightarrow> bool" where
  "IsInf f sign = (if sign > 0 then f = PInf else if sign < 0 then f = NInf
                   else f = PInf \<or> f = NInf)"

text \<open>Go's comparison operators on float64: every comparison with NaN is false,
  except \<^verbatim>\<open>!=\<close>.\<close>

fun flt :: "f64 \<Rightarrow> f64 \<Rightarrow> bool" where
  "flt NaN _ = False"
| "flt _ NaN = False"
| "flt PInf _ = False"
| "flt _ NInf = False"
| "flt NInf _ = True"
| "flt _ PInf = True"
| "flt (Fin a) (Fin b) = (a < b)"

definition feq :: "f64 \<Rightarrow> f64 \<Rightarrow> bool" where
  "feq a b = (a \<noteq> NaN \<and> b \<noteq> NaN \<and> a = b)"

definition fne :: "f64 \<Rightarrow> f64 \<Rightarrow> bool" where
  "fne a b = (\<not> feq a b)"

definition fle :: "f64 \<Rightarrow> f64 \<Rightarrow> bool" where
  "fle a b = (flt a b \<or> feq a b)"

definition fgt :: "f64 \<Rightarrow> f64 \<Rightarrow> bool" where
  "fgt a b = flt b a"

definition fge :: "f64 \<Rightarrow> f64 \<Rightarrow> bool" where
  "fge a b = fle b a"

fun fneg :: "f64 \<Rightarrow> f64" where
  "fneg NaN = NaN"
| "fneg PInf = NInf"
| "fneg NInf = PInf"
| "fneg (Fin a) = Fin (- a)"

fun fadd :: "f64 \<Rightarrow> f64 \<Rightarrow> f64" where
  "fadd NaN _ = NaN"
| "fadd _ NaN = NaN"
| "fadd PInf NInf = NaN"
| "fadd NInf PInf = NaN"
| "fadd PInf _ = PInf"
| "fadd _ PInf = PInf"
| "fadd NInf _ = NInf"
| "fadd _ NInf = NInf"
| "fadd (Fin a) (Fin b) = Fin (a + b)"

definition fsub :: "f64 \<Rightarrow> f64 \<Rightarrow> f64" where
  "fsub a b = fadd a (fneg b)"

definition signed_inf :: "bool \<Rightarrow> f64" where
  "signed_inf negative = (if negative then NInf else PInf)"

fun fmul :: "f64 \<Rightarrow> f64 \<Rightarrow> f64" where
  "fmul NaN _ = NaN"
| "fmul _ NaN = NaN"
| "fmul (Fin a) (Fin b) = Fin (a * b)"
| "fmul (Fin a) PInf = (if a = 0 then NaN else signed_inf (a < 0))"
| "fmul (Fin a) NInf = (if a = 0 then NaN else signed_inf (0 < a))"
| "fmul PInf (Fin b) = (if b = 0 then NaN else signed_inf (b < 0))"
| "fmul NInf (Fin b) = (if b = 0 then NaN else signed_inf (0 < b))"
| "fmul PInf PInf = PInf"
| "fmul NInf NInf = PInf"
| "fmul PInf NInf = NInf"
| "fmul NInf PInf = NInf"

text \<open>Division of floats never panics: a finite non-zero number over zero is an
  infinity, zero over zero is NaN.\<close>

fun fdiv :: "f64 \<Rightarrow> f64 \<Rightarrow> f64" where
  "fdiv NaN _ = NaN"
| "fdiv _ NaN = NaN"
| "fdiv (Fin a) (Fin b) =
     (if b = 0 then (if a = 0 then NaN else signed_inf (a < 0)) else Fin (a / b))"
| "fdiv (Fin a) PInf = Fin 0"
| "fdiv (Fin a) NInf = Fin 0"
| "fdiv PInf (Fin b) = signed_inf (b < 0)"
| "fdiv NInf (Fin b) = signed_inf (0 \<le> b)"
| "fdiv PInf PInf = NaN"
| "fdiv PInf NInf = NaN"
| "fdiv NInf PInf = NaN"
| "fdiv NInf NInf = NaN"

text \<open>\<^verbatim>\<open>int(x)\<close> truncates a finite float toward zero. The evaluator converts only
  after it has excluded NaN and the infinities; their conversion depends on the
  machine and is given the value amd64 produces.\<close>

definition trunc_real :: "real \<Rightarrow> int" where
  "trunc_real r = (if 0 \<le> r then \<lfloor>r\<rfloor> else \<lceil>r\<rceil>)"

fun go_int :: "f64 \<Rightarrow> int" where
  "go_int (Fin r) = trunc_real r"
| "go_int _ = - (2 ^ 63)"

definition of_go_int :: "int \<Rightarrow> f64" where
  "of_go_int i = Fin (of_int i)"

text \<open>Integer division in Go truncates toward zero.\<close>

definition go_quot :: "int \<Rightarrow> int \<Rightarrow> int" where
  "go_quot a b = sgn a * sgn b * (\<bar>a\<bar> div \<bar>b\<bar>)"

subsubsection \<open>The functions of package math, with their documented special cases\<close>

fun math_Abs :: "f64 \<Rightarrow> f64" where
  "math_Abs NaN = NaN"
| "math_Abs PInf = PInf"
| "math_Abs NInf = PInf"
| "math_Abs (Fin a) = Fin \<bar>a\<bar>"

fun math_Ceil :: "f64 \<Rightarrow> f64" where
  "math_Ceil (Fin a) = Fin (of_int \<lceil>a\<rceil>)"
| "math_Ceil x = x"

fun math_Floor :: "f64 \<Rightarrow> f64" where
  "math_Floor (Fin a) = Fin (of_int \<lfloor>a\<rfloor>)"
| "math_Floor x = x"

fun math_Sqrt :: "f64 \<Rightarrow> f64" where
  "math_Sqrt (Fin a) = (if a < 0 then NaN else Fin (sqrt a))"
| "math_Sqrt PInf = PInf"
| "math_Sqrt _ = NaN"

fun math_Log :: "f64 \<Rightarrow> f64" where
  "math_Log (Fin a) = (if a < 0 then NaN else if a = 0 then NInf else Fin (ln a))"
| "math_Log PInf = PInf"
| "math_Log _ = NaN"

fun math_Exp :: "f64 \<Rightarrow> f64" where
  "math_Exp (Fin a) = Fin (exp a)"
| "math_Exp PInf = PInf"
| "math_Exp NInf = Fin 0"
| "math_Exp NaN = NaN"

fun math_Sin :: "f64 \<Rightarrow> f64" where
  "math_Sin (Fin a) = Fin (sin a)"
| "math_Sin _ = NaN"

fun math_Cos :: "f64 \<Rightarrow> f64" where
  "math_Cos (Fin a) = Fin (cos a)"
| "math_Cos _ = NaN"

fun math_Atan :: "f64 \<Rightarrow> f64" where
  "math_Atan (Fin a) = Fin (arctan a)"
| "math_Atan PInf = Fin (pi / 2)"
| "math_Atan NInf = Fin (- pi / 2)"
| "math_Atan NaN = NaN"

fun math_Atan2 :: "f64 \<Rightarrow> f64 \<Rightarrow> f64" where
  "math_Atan2 NaN _ = NaN"
| "math_Atan2 _ NaN = NaN"
| "math_Atan2 PInf PInf = Fin (pi / 4)"
| "math_Atan2 NInf PInf = Fin (- pi / 4)"
| "math_Atan2 PInf NInf = Fin (3 * pi / 4)"
| "math_Atan2 NInf NInf = Fin (- 3 * pi / 4)"
| "math_Atan2 (Fin y) PInf = Fin 0"
| "math_Atan2 (Fin y) NInf = (if y < 0 then Fin (- pi) else Fin pi)"
| "math_Atan2 PInf (Fin x) = Fin (pi / 2)"
| "math_Atan2 NInf (Fin x) = Fin (- pi / 2)"
| "math_Atan2 (Fin y) (Fin x) =
     (if y = 0 then (if 0 \<le> x then Fin 0 else Fin pi)
      else if x = 0 then (if 0 < y then Fin (pi / 2) else Fin (- pi / 2))
      else if 0 < x then Fin (arctan (y / x))
      else if 0 < y then Fin (arctan (y / x) + pi)
      else Fin (arctan (y / x) - pi))"

fun math_Mod :: "f64 \<Rightarrow> f64 \<Rightarrow> f64" where
  "math_Mod NaN _ = NaN"
| "math_Mod _ NaN = NaN"
| "math_Mod PInf _ = NaN"
| "math_Mod NInf _ = NaN"
| "math_Mod (Fin x) PInf = Fin x"
| "math_Mod (Fin x) NInf = Fin x"
| "math_Mod (Fin x) (Fin y) = (if y = 0 then NaN else Fin (x - y * of_int (trunc_real (x / y))))"

definition is_odd_int :: "real \<Rightarrow> bool" where
  "is_odd_int y = (y = of_int \<lfloor>y\<rfloor> \<and> odd \<lfloor>y\<rfloor>)"

text \<open>\<^verbatim>\<open>math.Pow\<close>, in the order of its own case distinction: \<^verbatim>\<open>Pow(x, 0) = 1\<close> and
  \<^verbatim>\<open>Pow(1, y) = 1\<close> for any operand, NaN included, then \<^verbatim>\<open>Pow(x, 1) = x\<close>.\<close>

definition math_Pow :: "f64 \<Rightarrow> f64 \<Rightarrow> f64" where
  "math_Pow x y =
     (if y = Fin 0 \<or> x = Fin 1 then Fin 1
      else if y = Fin 1 then x
      else if x = NaN \<or> y = NaN then NaN
      else if x = Fin 0 then (if flt y (Fin 0) then PInf else Fin 0)
      else if y = PInf \<or> y = NInf then
        (if x = Fin (- 1) then Fin 1
         else if (flt (math_Abs x) (Fin 1)) = (y = PInf) then Fin 0
         else PInf)
      else (case (x, y) of
          (PInf, _) \<Rightarrow> (if flt y (Fin 0) then Fin 0 else PInf)
        | (NInf, Fin b) \<Rightarrow>
            (if b < 0 then Fin 0 else if is_odd_int b then NInf else PInf)
        | (Fin a, Fin b) \<Rightarrow>
            (if a < 0 then (if b = of_int \<lfloor>b\<rfloor> then Fin (a powi \<lfloor>b\<rfloor>) else NaN)
             else Fin (a powr b))
        | _ \<Rightarrow> NaN))"

fun math_Max :: "f64 \<Rightarrow> f64 \<Rightarrow> f64" where
  "math_Max PInf _ = PInf"
| "math_Max _ PInf = PInf"
| "math_Max NaN _ = NaN"
| "math_Max _ NaN = NaN"
| "math_Max NInf y = y"
| "math_Max x NInf = x"
| "math_Max (Fin a) (Fin b) = Fin (max a b)"

fun math_Min :: "f64 \<Rightarrow> f64 \<Rightarrow> f64" where
  "math_Min NInf _ = NInf"
| "math_Min _ NInf = NInf"
| "math_Min NaN _ = NaN"
| "math_Min _ NaN = NaN"
| "math_Min PInf y = y"
| "math_Min x PInf = x"
| "math_Min (Fin a) (Fin b) = Fin (min a b)"

subsection \<open>Values, errors and the operator table\<close>

text \<open>What an \<^verbatim>\<open>interface{}\<close> slot of \<^verbatim>\<open>tokens\<close> or \<^verbatim>\<open>scratch\<close> can hold: nothing
  yet (a slot of a fresh \<^verbatim>\<open>make\<close>), a float64, a string, or an \<^verbatim>\<open>int\<close>.\<close>

datatype val = VNil | VFloat f64 | VStr string | VInt int

datatype arg = AStr string | AInt int | AFloat f64 | AVal val | AVals "val list"

text \<open>\<open>ErrSyntax fmt args\<close> is \<^verbatim>\<open>newErrSyntax(fmt, args...)\<close>, kept with its format and
  arguments; \<open>ErrSyntaxLit\<close> is the struct literal \<^verbatim>\<open>ErrSyntax{msg, nil}\<close>.\<close>

datatype error =
    ErrSyntax string "arg list"
  | ErrSyntaxLit string
  | ErrOpenBindings "string list"
  | ErrBadBindingType string
  | ExpectedFloat val
  | Panic string

datatype arityTuple = ArityTuple (popCount: int) (floatOffset: int) (floatCount: int)
  (nonOperatorOffset: int) (nonOperatorCount: int)

definition arity_table :: "(string \<times> arityTuple) list" where
  "arity_table =
   [(''%'', ArityTuple 2 2 0 0 0),
    (''*'', ArityTuple 2 2 0 0 0),
    (''+'', ArityTuple 2 2 0 0 0),
    (''-'', ArityTuple 2 2 0 0 0),
    (''/'', ArityTuple 2 2 0 0 0),
    (''ABS'', ArityTuple 1 1 1 0 0),
    (''ADDNAN'', ArityTuple 2 2 2 0 0),
    (''ATAN'', ArityTuple 1 1 1 0 0),
    (''ATAN2'', ArityTuple 2 2 2 0 0),
    (''AVG'', ArityTuple 1 1 1 0 0),
    (''CEIL'', ArityTuple 1 1 1 0 0),
    (''COPY'', ArityTuple 1 1 1 0 0),
    (''COS'', ArityTuple 1 1 1 0 0),
    (''DEG2RAD'', ArityTuple 1 1 1 0 0),
    (''DEPTH'', ArityTuple 0 0 0 0 0),
    (''DUP'', ArityTuple 1 0 0 1 1),
    (''EQ'', ArityTuple 2 0 0 2 2),
    (''EXC'', ArityTuple 2 0 0 2 2),
    (''EXP'', ArityTuple 1 1 1 0 0),
    (''FLOOR'', ArityTuple 1 1 1 0 0),
    (''GE'', ArityTuple 2 0 0 2 2),
    (''GT'', ArityTuple 2 0 0 2 2),
    (''IF'', ArityTuple 3 3 1 2 2),
    (''INDEX'', ArityTuple 1 1 1 0 0),
    (''ISINF'', ArityTuple 1 1 1 0 0),
    (''LE'', ArityTuple 2 0 0 2 2),
    (''LIMIT'', ArityTuple 3 3 3 0 0),
    (''LOG'', ArityTuple 1 1 1 0 0),
    (''LT'', ArityTuple 2 0 0 2 2),
    (''MAD'', ArityTuple 1 1 1 0 0),
    (''MAX'', ArityTuple 2 0 0 2 2),
    (''MAXNAN'', ArityTuple 2 0 0 2 2),
    (''MEDIAN'', ArityTuple 1 1 1 0 0),
    (''MIN'', ArityTuple 2 0 0 2 2),
    (''MINNAN'', ArityTuple 2 0 0 2 2),
    (''NE'', ArityTuple 2 0 0 2 2),
    (''PERCENT'', ArityTuple 2 2 2 0 0),
    (''POP'', ArityTuple 1 0 0 0 0),
    (''POW'', ArityTuple 2 2 0 0 0),
    (''RAD2DEG'', ArityTuple 1 1 1 0 0),
    (''REV'', ArityTuple 1 1 1 0 0),
    (''ROLL'', ArityTuple 2 2 2 0 0),
    (''SIN'', ArityTuple 1 1 1 0 0),
    (''SMAX'', ArityTuple 1 1 1 0 0),
    (''SMIN'', ArityTuple 1 1 1 0 0),
    (''SORT'', ArityTuple 1 1 1 0 0),
    (''SQRT'', ArityTuple 1 1 1 0 0),
    (''STDEV'', ArityTuple 1 1 1 0 0),
    (''TREND'', ArityTuple 2 1 1 2 1),
    (''TRENDNAN'', ArityTuple 2 1 1 2 1),
    (''UN'', ArityTuple 1 1 1 0 0)]"

definition arity :: "string \<Rightarrow> arityTuple option" where
  "arity = map_of arity_table"

subsection \<open>The standard library the evaluator calls\<close>

text \<open>
  \<^verbatim>\<open>strconv.ParseFloat\<close>, the text \<^verbatim>\<open>fmt\<close> prints for a finite float64, the clock and
  the local calendar are not code of this package: they are parameters.
  \<open>ParseFloat s = None\<close> stands for a non-nil error. The calendar functions take
  seconds since the epoch; \<open>Local_Weekday\<close> is 0 on Sunday.
\<close>

record lib =
  ParseFloat :: "string \<Rightarrow> f64 option"
  Sprint_float :: "real \<Rightarrow> string"
  Now_Unix :: int
  Zone_offset :: "int \<Rightarrow> int"
  Local_Day :: "int \<Rightarrow> int"
  Local_Weekday :: "int \<Rightarrow> int"
  Local_Month :: "int \<Rightarrow> int"

subsection \<open>Bindings and their coercion\<close>

text \<open>A caller's binding value, by its Go type. \<open>ROther t\<close> is a value of a type
  \<open>t\<close> that is not a slice and not one of the five numeric types, \<open>RSliceOther t\<close> a
  slice of any other element type, \<open>RNil\<close> the nil interface. A \<^verbatim>\<open>map\<close> is listed
  in the order the \<^verbatim>\<open>range\<close> loop visits it.\<close>

datatype raw =
    RFloat64 f64 | RFloat32 f64 | RInt int | RInt64 int | RInt32 int
  | RSliceFloat64 "f64 list" | RSliceFloat32 "f64 list"
  | RSliceInt "int list" | RSliceInt64 "int list" | RSliceInt32 "int list"
  | RSliceAny "raw list" | RSliceOther string | ROther string | RNil

datatype binding = BFloat f64 | BSeries "f64 list"

fun type_name :: "raw \<Rightarrow> string" where
  "type_name (RFloat64 _) = ''float64''"
| "type_name (RFloat32 _) = ''float32''"
| "type_name (RInt _) = ''int''"
| "type_name (RInt64 _) = ''int64''"
| "type_name (RInt32 _) = ''int32''"
| "type_name (RSliceFloat64 _) = ''[]float64''"
| "type_name (RSliceFloat32 _) = ''[]float32''"
| "type_name (RSliceInt _) = ''[]int''"
| "type_name (RSliceInt64 _) = ''[]int64''"
| "type_name (RSliceInt32 _) = ''[]int32''"
| "type_name (RSliceAny _) = ''[]interface {}''"
| "type_name (RSliceOther t) = t"
| "type_name (ROther t) = t"
| "type_name RNil = ''<nil>''"

fun coerceValueToFloat64 :: "raw \<Rightarrow> error + f64" where
  "coerceValueToFloat64 (RFloat64 v) = Inr v"
| "coerceValueToFloat64 (RFloat32 v) = Inr v"
| "coerceValueToFloat64 (RInt v) = Inr (of_go_int v)"
| "coerceValueToFloat64 (RInt64 v) = Inr (of_go_int v)"
| "coerceValueToFloat64 (RInt32 v) = Inr (of_go_int v)"
| "coerceValueToFloat64 v = Inl (ErrBadBindingType (type_name v))"

fun coerce_each :: "raw list \<Rightarrow> error + f64 list" where
  "coerce_each [] = Inr []"
| "coerce_each (v # vs) =
     (case coerceValueToFloat64 v of
        Inl _ \<Rightarrow> Inl (ErrBadBindingType (type_name v))
      | Inr cf \<Rightarrow> (case coerce_each vs of Inl e \<Rightarrow> Inl e | Inr cfs \<Rightarrow> Inr (cf # cfs)))"

fun coerceValuesToFloat64 :: "raw \<Rightarrow> error + f64 list" where
  "coerceValuesToFloat64 (RSliceFloat64 oldList) = Inr oldList"
| "coerceValuesToFloat64 (RSliceInt oldList) = Inr (map of_go_int oldList)"
| "coerceValuesToFloat64 (RSliceAny oldList) = coerce_each oldList"
| "coerceValuesToFloat64 (RSliceFloat32 oldList) = Inr oldList"
| "coerceValuesToFloat64 (RSliceInt32 oldList) = Inr (map of_go_int oldList)"
| "coerceValuesToFloat64 (RSliceInt64 oldList) = Inr (map of_go_int oldList)"
| "coerceValuesToFloat64 v = Inl (ErrBadBindingType (type_name v))"

fun is_slice :: "raw \<Rightarrow> bool" where
  "is_slice (RSliceFloat64 _) = True"
| "is_slice (RSliceFloat32 _) = True"
| "is_slice (RSliceInt _) = True"
| "is_slice (RSliceInt64 _) = True"
| "is_slice (RSliceInt32 _) = True"
| "is_slice (RSliceAny _) = True"
| "is_slice (RSliceOther _) = True"
| "is_slice _ = False"

text \<open>\<^verbatim>\<open>%q\<close> of a string without characters that need escaping.\<close>

definition quoted :: "string \<Rightarrow> string" where
  "quoted s = [CHR 0x22] @ s @ [CHR 0x22]"

definition bad_binding :: "string \<Rightarrow> error \<Rightarrow> error" where
  "bad_binding key err =
     (case err of
        ErrBadBindingType t \<Rightarrow> ErrBadBindingType (quoted key @ '': '' @ quoted t)
      | _ \<Rightarrow> Panic ''interface conversion'')"

text \<open>\<^verbatim>\<open>reflect.TypeOf(nil)\<close> is nil, and \<^verbatim>\<open>Kind\<close> on it panics.\<close>

fun coerceMapValuesToFloat64 ::
  "(string \<times> raw) list \<Rightarrow> error + (string \<times> binding) list" where
  "coerceMapValuesToFloat64 [] = Inr []"
| "coerceMapValuesToFloat64 ((key, value) # rest) =
     (if value = RNil then Inl (Panic ''nil pointer dereference'')
      else case (if is_slice value
                 then (case coerceValuesToFloat64 value of
                         Inl err \<Rightarrow> Inl (bad_binding key err) | Inr s \<Rightarrow> Inr (BSeries s))
                 else (case coerceValueToFloat64 value of
                         Inl err \<Rightarrow> Inl (bad_binding key err) | Inr v \<Rightarrow> Inr (BFloat v))) of
             Inl err \<Rightarrow> Inl err
           | Inr b \<Rightarrow> (case coerceMapValuesToFloat64 rest of
                         Inl err \<Rightarrow> Inl err
                       | Inr newBindings \<Rightarrow> Inr ((key, b) # newBindings)))"

subsection \<open>The Expression and its work area\<close>

text \<open>The receiver. \<open>openBindings\<close> is the map \<^verbatim>\<open>map[string]int\<close> as an association
  list (a missing key reads as 0); \<open>scratch\<close> and \<open>isFloat\<close> are the slices of the work
  area, whose length is their capacity.\<close>

record Expression =
  delimiter :: char
  openBindings :: "(string \<times> int) list"
  secondsPerInterval :: f64
  tokens :: "val list"
  performTimeSubstitutions :: bool
  scratchSize :: int
  scratchHead :: int
  scratch :: "val list"
  isFloat :: "bool list"

definition bindE :: "error + 'a \<Rightarrow> ('a \<Rightarrow> error + 'b) \<Rightarrow> error + 'b" where
  "bindE m f = (case m of Inl err \<Rightarrow> Inl err | Inr x \<Rightarrow> f x)"

text \<open>Indexing a slice: out of range is a panic.\<close>

definition rd :: "'a list \<Rightarrow> int \<Rightarrow> error + 'a" where
  "rd xs i = (if 0 \<le> i \<and> i < int (length xs) then Inr (xs ! nat i)
              else Inl (Panic ''index out of range''))"

definition wr :: "'a list \<Rightarrow> int \<Rightarrow> 'a \<Rightarrow> error + 'a list" where
  "wr xs i v = (if 0 \<le> i \<and> i < int (length xs) then Inr (xs[nat i := v])
                else Inl (Panic ''index out of range''))"

text \<open>The type assertions \<^verbatim>\<open>x.(float64)\<close> and \<^verbatim>\<open>x.(string)\<close> in their one-value
  form, which panics on another type.\<close>

definition asFloat :: "val \<Rightarrow> error + f64" where
  "asFloat v = (case v of VFloat f \<Rightarrow> Inr f | _ \<Rightarrow> Inl (Panic ''interface conversion''))"

definition asString :: "val \<Rightarrow> error + string" where
  "asString v = (case v of VStr s \<Rightarrow> Inr s | _ \<Rightarrow> Inl (Panic ''interface conversion''))"

definition is_float64 :: "val \<Rightarrow> bool" where
  "is_float64 v = (case v of VFloat _ \<Rightarrow> True | _ \<Rightarrow> False)"

definition sc :: "Expression \<Rightarrow> int \<Rightarrow> error + val" where
  "sc e i = rd (scratch e) i"

definition scF :: "Expression \<Rightarrow> int \<Rightarrow> error + f64" where
  "scF e i = bindE (rd (scratch e) i) asFloat"

definition flag :: "Expression \<Rightarrow> int \<Rightarrow> error + bool" where
  "flag e i = rd (isFloat e) i"

text \<open>\<^verbatim>\<open>e.scratch[e.scratchHead] = v; e.isFloat[e.scratchHead] = f; e.scratchHead++\<close>\<close>

definition push :: "Expression \<Rightarrow> val \<Rightarrow> bool \<Rightarrow> error + Expression" where
  "push e v f =
     bindE (wr (scratch e) (scratchHead e) v) (\<lambda>s.
     bindE (wr (isFloat e) (scratchHead e) f) (\<lambda>fl.
     Inr (e\<lparr>scratch := s, isFloat := fl, scratchHead := scratchHead e + 1\<rparr>)))"

definition ob_get :: "(string \<times> int) list \<Rightarrow> string \<Rightarrow> int" where
  "ob_get m k = (case map_of m k of None \<Rightarrow> 0 | Some v \<Rightarrow> v)"

fun ob_set :: "(string \<times> int) list \<Rightarrow> string \<Rightarrow> int \<Rightarrow> (string \<times> int) list" where
  "ob_set [] k v = [(k, v)]"
| "ob_set ((k', v') # m) k v = (if k' = k then (k, v) # m else (k', v') # ob_set m k v)"

text \<open>\<^verbatim>\<open>e.openBindings[k] = e.openBindings[k] + d\<close>\<close>

definition ob_add :: "Expression \<Rightarrow> string \<Rightarrow> int \<Rightarrow> Expression" where
  "ob_add e k d = e\<lparr>openBindings := ob_set (openBindings e) k (ob_get (openBindings e) k + d)\<rparr>"

text \<open>The indices \<open>lo, lo + 1, \<dots>\<close> a \<^verbatim>\<open>for argIdx = lo; argIdx < lo + n; argIdx++\<close>
  loop visits.\<close>

fun idxs :: "int \<Rightarrow> nat \<Rightarrow> int list" where
  "idxs lo 0 = []"
| "idxs lo (Suc n) = lo # idxs (lo + 1) n"

subsection \<open>Time substitution\<close>

record tctx =
  isTimeSet :: bool
  nowSeconds :: f64
  jTimeSeconds :: f64
  zTimeSeconds :: f64
  jTime :: int

definition isFirstOfDay :: "f64 \<Rightarrow> f64 \<Rightarrow> f64" where
  "isFirstOfDay jSeconds spi =
     (let js = go_int jSeconds;
          tLeft = go_quot js 86400 * 86400;
          tRight = tLeft + go_int spi
      in if js < tLeft \<or> js > tRight then Fin 0 else Fin 1)"

definition binding_type_name :: "binding \<Rightarrow> string" where
  "binding_type_name b = (case b of BFloat _ \<Rightarrow> ''float64'' | BSeries _ \<Rightarrow> ''[]float64'')"

definition time_setup ::
  "lib \<Rightarrow> Expression \<Rightarrow> (string \<times> binding) list \<Rightarrow> error + tctx" where
  "time_setup L e bindings =
     (let T0 = \<lparr>isTimeSet = False, nowSeconds = Fin 0, jTimeSeconds = Fin 0,
                zTimeSeconds = Fin 0, jTime = 0\<rparr>
      in if performTimeSubstitutions e then
           (let T1 = T0\<lparr>nowSeconds := of_go_int (Now_Unix L)\<rparr>
            in case map_of bindings ''TIME'' of
                 None \<Rightarrow> Inr T1
               | Some (BFloat z) \<Rightarrow>
                   (let t = go_int z; jo = Zone_offset L t
                    in Inr (T1\<lparr>isTimeSet := True, zTimeSeconds := z, jTime := t,
                                jTimeSeconds := of_go_int (t + jo)\<rparr>))
               | Some epoch \<Rightarrow>
                   Inl (ErrSyntax ''TIME ought to be bound to number rather than %T''
                          [AStr (binding_type_name epoch)]))
         else Inr T0)"

text \<open>The common shape of \<^verbatim>\<open>LTIME\<close>, \<^verbatim>\<open>NEWDAY\<close>, \<^verbatim>\<open>NEWWEEK\<close>, \<^verbatim>\<open>NEWMONTH\<close>,
  \<^verbatim>\<open>NEWYEAR\<close> and \<^verbatim>\<open>TIME\<close>: the value when \<^verbatim>\<open>TIME\<close> is bound, else the token itself
  with one more open binding of \<^verbatim>\<open>TIME\<close>.\<close>

definition time_token :: "tctx \<Rightarrow> Expression \<Rightarrow> string \<Rightarrow> f64 \<Rightarrow> error + Expression" where
  "time_token T e token v =
     (if isTimeSet T then push e (VFloat v) True
      else push (ob_add e ''TIME'' 1) (VStr token) False)"

subsection \<open>The operators\<close>

text \<open>What the \<^verbatim>\<open>switch token\<close> leaves behind: a \<^verbatim>\<open>result\<close> with the
  \<^verbatim>\<open>additionalArgumentCount\<close>, or \<^verbatim>\<open>cannotSimplify\<close>, or a stack it has already
  updated itself (\<^verbatim>\<open>stackUpdated\<close>).\<close>

datatype opres = Res val int | Cannot | Updated Expression

definition num :: "f64 \<Rightarrow> error + opres" where
  "num f = Inr (Res (VFloat f) 0)"

definition f01 :: "bool \<Rightarrow> f64" where
  "f01 b = (if b then Fin 1 else Fin 0)"

text \<open>The two operands of a binary operator, with their flags.\<close>

definition two ::
  "Expression \<Rightarrow> int \<Rightarrow> (bool \<Rightarrow> bool \<Rightarrow> val \<Rightarrow> val \<Rightarrow> error + opres) \<Rightarrow> error + opres" where
  "two e i k =
     bindE (flag e i) (\<lambda>fa. bindE (flag e (i + 1)) (\<lambda>fb.
     bindE (sc e i) (\<lambda>va. bindE (sc e (i + 1)) (\<lambda>vb. k fa fb va vb))))"

definition op_plus :: "bool \<Rightarrow> bool \<Rightarrow> val \<Rightarrow> val \<Rightarrow> error + opres" where
  "op_plus fa fb va vb =
     (if fa then
        (if fb then bindE (asFloat va) (\<lambda>a. bindE (asFloat vb) (\<lambda>b. num (fadd a b)))
         else bindE (asFloat va) (\<lambda>a. if feq a (Fin 0) then Inr (Res vb 0) else Inr Cannot))
      else if fb then
        bindE (asFloat vb) (\<lambda>b. if feq b (Fin 0) then Inr (Res va 0) else Inr Cannot)
      else Inr Cannot)"

definition op_minus :: "bool \<Rightarrow> bool \<Rightarrow> val \<Rightarrow> val \<Rightarrow> error + opres" where
  "op_minus fa fb va vb =
     (if fa then
        (if fb then bindE (asFloat va) (\<lambda>a. bindE (asFloat vb) (\<lambda>b. num (fsub a b)))
         else Inr Cannot)
      else if fb then
        bindE (asFloat vb) (\<lambda>b. if feq b (Fin 0) then Inr (Res va 0) else Inr Cannot)
      else Inr Cannot)"

text \<open>In \<^verbatim>\<open>*\<close> the folded zero is the untyped constant \<^verbatim>\<open>0\<close>, stored as an
  \<^verbatim>\<open>int\<close>.\<close>

definition op_times :: "bool \<Rightarrow> bool \<Rightarrow> val \<Rightarrow> val \<Rightarrow> error + opres" where
  "op_times fa fb va vb =
     (if fa then
        (if fb then bindE (asFloat va) (\<lambda>a. bindE (asFloat vb) (\<lambda>b. num (fmul a b)))
         else bindE (asFloat va) (\<lambda>a.
                if feq a (Fin 0) then Inr (Res (VInt 0) 0)
                else if feq a (Fin 1) then Inr (Res vb 0)
                else Inr Cannot))
      else if fb then
        bindE (asFloat vb) (\<lambda>b.
          if feq b (Fin 0) then Inr (Res (VInt 0) 0)
          else if feq b (Fin 1) then Inr (Res va 0)
          else Inr Cannot)
      else Inr Cannot)"

definition op_divide :: "bool \<Rightarrow> bool \<Rightarrow> val \<Rightarrow> val \<Rightarrow> error + opres" where
  "op_divide fa fb va vb =
     (if fa then
        (if fb then bindE (asFloat va) (\<lambda>a. bindE (asFloat vb) (\<lambda>b. num (fdiv a b)))
         else bindE (asFloat va) (\<lambda>a. if feq a (Fin 0) then num (Fin 0) else Inr Cannot))
      else if fb then
        bindE (asFloat vb) (\<lambda>b.
          if feq b (Fin 0) then num NaN
          else if feq b (Fin 1) then Inr (Res va 0)
          else Inr Cannot)
      else Inr Cannot)"

definition op_modulo :: "bool \<Rightarrow> bool \<Rightarrow> val \<Rightarrow> val \<Rightarrow> error + opres" where
  "op_modulo fa fb va vb =
     (if fa then
        (if fb then bindE (asFloat va) (\<lambda>a. bindE (asFloat vb) (\<lambda>b. num (math_Mod a b)))
         else Inr Cannot)
      else if fb then
        bindE (asFloat vb) (\<lambda>b.
          if feq b (Fin 0) then num NaN
          else if feq b (Fin 1) then num (Fin 0)
          else Inr Cannot)
      else Inr Cannot)"

definition op_POW :: "bool \<Rightarrow> bool \<Rightarrow> val \<Rightarrow> val \<Rightarrow> error + opres" where
  "op_POW fa fb va vb =
     (if fa then
        (if fb then bindE (asFloat va) (\<lambda>a. bindE (asFloat vb) (\<lambda>b. num (math_Pow a b)))
         else bindE (asFloat va) (\<lambda>a.
                if feq a (Fin 0) then num (Fin 0)
                else if feq a (Fin 1) then num (Fin 1)
                else Inr Cannot))
      else if fb then
        bindE (asFloat vb) (\<lambda>b.
          if feq b (Fin 0) then num (Fin 1)
          else if feq b (Fin 1) then Inr (Res va 0)
          else Inr Cannot)
      else Inr Cannot)"

definition op_ADDNAN :: "f64 \<Rightarrow> f64 \<Rightarrow> f64" where
  "op_ADDNAN a b =
     (if \<not> IsNaN a \<and> \<not> IsNaN b then fadd a b else if \<not> IsNaN a then a else b)"

text \<open>The relational family. With two floats: \<open>nan\<close> says whether a NaN operand gives
  NaN, \<open>cmp\<close> is the comparison. With two strings that are equal the result is
  \<open>same\<close>; two different strings, or a float and a string, cannot be simplified.\<close>

definition relational ::
  "bool \<Rightarrow> (f64 \<Rightarrow> f64 \<Rightarrow> bool) \<Rightarrow> f64 \<Rightarrow> bool \<Rightarrow> bool \<Rightarrow> val \<Rightarrow> val \<Rightarrow> error + opres" where
  "relational nan cmp same fa fb va vb =
     (if fa \<and> fb then
        bindE (asFloat va) (\<lambda>a.
          if nan \<and> IsNaN a then num NaN
          else bindE (asFloat vb) (\<lambda>b.
            if nan \<and> IsNaN b then num NaN else num (f01 (cmp a b))))
      else if \<not> fa \<and> \<not> fb then
        bindE (asString va) (\<lambda>s. bindE (asString vb) (\<lambda>t.
          if s = t then num same else Inr Cannot))
      else Inr Cannot)"

text \<open>\<^verbatim>\<open>MAX\<close>, \<^verbatim>\<open>MIN\<close> (\<open>keep = True\<close>: a NaN operand is the result) and \<^verbatim>\<open>MAXNAN\<close>,
  \<^verbatim>\<open>MINNAN\<close> (\<open>keep = False\<close>: the other operand is).\<close>

definition extremum ::
  "bool \<Rightarrow> (f64 \<Rightarrow> f64 \<Rightarrow> f64) \<Rightarrow> bool \<Rightarrow> bool \<Rightarrow> val \<Rightarrow> val \<Rightarrow> error + opres" where
  "extremum keep pick fa fb va vb =
     (if fa \<and> fb then
        bindE (asFloat va) (\<lambda>a.
          if IsNaN a then Inr (Res (if keep then va else vb) 0)
          else bindE (asFloat vb) (\<lambda>b.
            if IsNaN b then Inr (Res (if keep then vb else va) 0)
            else num (pick b a)))
      else if \<not> fa \<and> \<not> fb then
        bindE (asString va) (\<lambda>s. bindE (asString vb) (\<lambda>t.
          if s = t then Inr (Res va 0) else Inr Cannot))
      else if fa then
        bindE (asFloat va) (\<lambda>a.
          if IsNaN a then Inr (Res (if keep then va else vb) 0) else Inr Cannot)
      else
        bindE (asFloat vb) (\<lambda>b.
          if IsNaN b then Inr (Res (if keep then vb else va) 0) else Inr Cannot))"

definition op_LIMIT :: "f64 \<Rightarrow> f64 \<Rightarrow> f64 \<Rightarrow> f64" where
  "op_LIMIT a lo hi =
     (if IsNaN a \<or> IsNaN lo \<or> IsNaN hi then NaN
      else if IsInf a (- 1) \<or> IsInf lo (- 1) \<or> IsInf hi (- 1) then NaN
      else if \<not> (flt a lo \<or> fgt a hi) then a
      else NaN)"

subsection \<open>The operators that take a count\<close>

text \<open>The test every count goes through first:
  \<^verbatim>\<open>math.IsNaN(v) || math.IsInf(v, 1) || math.IsInf(v, -1) || v <= 0\<close>.\<close>

definition bad_count :: "f64 \<Rightarrow> bool" where
  "bad_count v = (IsNaN v \<or> IsInf v 1 \<or> IsInf v (- 1) \<or> fle v (Fin 0))"

definition err_count :: "string \<Rightarrow> f64 \<Rightarrow> error" where
  "err_count token v =
     ErrSyntax ''%s operator requires positive finite integer: %v'' [AStr token, AVal (VFloat v)]"

definition err_items :: "string \<Rightarrow> int \<Rightarrow> int \<Rightarrow> error" where
  "err_items token n avail =
     ErrSyntax ''%s operand requires %d items, but only %d on stack''
       [AStr token, AInt n, AInt avail]"

text \<open>The count in slot \<open>i\<close>: validated, converted with \<^verbatim>\<open>int()\<close> and compared with
  \<^verbatim>\<open>e.scratchHead-1\<close>. The result is \<^verbatim>\<open>additionalArgumentCount\<close>.\<close>

definition count_arg :: "Expression \<Rightarrow> string \<Rightarrow> int \<Rightarrow> error + int" where
  "count_arg e token i =
     bindE (scF e i) (\<lambda>v.
       if bad_count v then Inl (err_count token v)
       else (let n = go_int v
             in if n > scratchHead e - 1 then Inl (err_items token n (scratchHead e - 1))
                else Inr n))"

text \<open>The loops over the window \<open>[i - n, i)\<close>. \<open>None\<close> is \<^verbatim>\<open>cannotSimplify = true; break\<close>.\<close>

fun avg_loop :: "Expression \<Rightarrow> int list \<Rightarrow> f64 \<Rightarrow> int \<Rightarrow> error + (f64 \<times> int) option" where
  "avg_loop e [] tot used = Inr (Some (tot, used))"
| "avg_loop e (a # as) tot used =
     bindE (flag e a) (\<lambda>f.
       if \<not> f then Inr None
       else bindE (scF e a) (\<lambda>x.
              if \<not> IsNaN x then avg_loop e as (fadd tot x) (used + 1)
              else avg_loop e as tot used))"

fun stdev_loop ::
  "Expression \<Rightarrow> int list \<Rightarrow> f64 \<Rightarrow> int \<Rightarrow> f64 list \<Rightarrow> error + (f64 \<times> int \<times> f64 list) option" where
  "stdev_loop e [] tot used items = Inr (Some (tot, used, items))"
| "stdev_loop e (a # as) tot used items =
     bindE (flag e a) (\<lambda>f.
       if \<not> f then Inr None
       else bindE (scF e a) (\<lambda>x.
              if \<not> IsNaN x then stdev_loop e as (fadd tot x) (used + 1) (items @ [x])
              else stdev_loop e as tot used items))"

fun collect :: "Expression \<Rightarrow> int list \<Rightarrow> f64 list \<Rightarrow> error + f64 list option" where
  "collect e [] items = Inr (Some items)"
| "collect e (a # as) items =
     bindE (flag e a) (\<lambda>f.
       if \<not> f then Inr None
       else bindE (scF e a) (\<lambda>x. collect e as (items @ [x])))"

fun extreme_loop ::
  "(f64 \<Rightarrow> f64 \<Rightarrow> bool) \<Rightarrow> Expression \<Rightarrow> int list \<Rightarrow> f64 \<Rightarrow> error + f64 option" where
  "extreme_loop better e [] m = Inr (Some m)"
| "extreme_loop better e (a # as) m =
     bindE (flag e a) (\<lambda>f.
       if \<not> f then Inr None
       else bindE (scF e a) (\<lambda>item.
              extreme_loop better e as (if better item m then item else m)))"

text \<open>\<^verbatim>\<open>sort.Float64s\<close>: ascending, NaN first.\<close>

definition float_less :: "f64 \<Rightarrow> f64 \<Rightarrow> bool" where
  "float_less a b = (flt a b \<or> (IsNaN a \<and> \<not> IsNaN b))"

fun insert_f64 :: "f64 \<Rightarrow> f64 list \<Rightarrow> f64 list" where
  "insert_f64 x [] = [x]"
| "insert_f64 x (y # ys) = (if float_less x y then x # y # ys else y # insert_f64 x ys)"

definition sort_Float64s :: "f64 list \<Rightarrow> f64 list" where
  "sort_Float64s xs = foldr insert_f64 xs []"

definition median :: "f64 list \<Rightarrow> error + f64" where
  "median items0 =
     (let items = sort_Float64s items0;
          middle = int (length items) div 2
      in if int (length items) mod 2 = 0 then
           bindE (rd items (middle - 1)) (\<lambda>a.
           bindE (rd items middle) (\<lambda>b. Inr (fdiv (fadd a b) (Fin 2))))
         else rd items middle)"

definition mad :: "f64 list \<Rightarrow> error + f64" where
  "mad items =
     bindE (median items) (\<lambda>med.
       median (map (\<lambda>x. math_Abs (fsub x med)) (sort_Float64s items)))"

definition op_AVG :: "Expression \<Rightarrow> string \<Rightarrow> int \<Rightarrow> error + opres" where
  "op_AVG e token i =
     bindE (count_arg e token i) (\<lambda>n.
     bindE (avg_loop e (idxs (i - n) (nat n)) (Fin 0) 0) (\<lambda>r.
       case r of
         None \<Rightarrow> Inr Cannot
       | Some (tot, used) \<Rightarrow> Inr (Res (VFloat (fdiv tot (of_go_int used))) n)))"

definition op_STDEV :: "Expression \<Rightarrow> string \<Rightarrow> int \<Rightarrow> error + opres" where
  "op_STDEV e token i =
     bindE (count_arg e token i) (\<lambda>n.
     bindE (stdev_loop e (idxs (i - n) (nat n)) (Fin 0) 0 []) (\<lambda>r.
       case r of
         None \<Rightarrow> Inr Cannot
       | Some (tot, used, items) \<Rightarrow>
           (let mean = fdiv tot (of_go_int used);
                sumsq = foldl (\<lambda>t x. fadd t (fmul (fsub x mean) (fsub x mean))) (Fin 0) items
            in Inr (Res (VFloat (math_Sqrt (fdiv sumsq (of_go_int used)))) n))))"

text \<open>\<^verbatim>\<open>MEDIAN\<close> and \<^verbatim>\<open>MAD\<close>; \<open>f\<close> is \<open>median\<close> or \<open>mad\<close>. A count of one takes the item
  below the count as it is (``pin-hole optimization for 1 item'').\<close>

definition op_MEDIAN ::
  "(f64 list \<Rightarrow> error + f64) \<Rightarrow> Expression \<Rightarrow> string \<Rightarrow> int \<Rightarrow> error + opres" where
  "op_MEDIAN f e token i =
     bindE (count_arg e token i) (\<lambda>n.
       if n = 1 then bindE (sc e (i - 1)) (\<lambda>v. Inr (Res v n))
       else bindE (collect e (idxs (i - n) (nat n)) []) (\<lambda>r.
              case r of
                None \<Rightarrow> Inr Cannot
              | Some items \<Rightarrow> bindE (f items) (\<lambda>m. Inr (Res (VFloat m) n))))"

text \<open>\<^verbatim>\<open>SMAX\<close> (\<open>better = fgt\<close>) and \<^verbatim>\<open>SMIN\<close> (\<open>better = flt\<close>).\<close>

definition op_SMAX ::
  "(f64 \<Rightarrow> f64 \<Rightarrow> bool) \<Rightarrow> Expression \<Rightarrow> string \<Rightarrow> int \<Rightarrow> error + opres" where
  "op_SMAX better e token i =
     bindE (count_arg e token i) (\<lambda>n.
       if n = 1 then bindE (sc e (i - 1)) (\<lambda>v. Inr (Res v n))
       else bindE (sc e (i - 1)) (\<lambda>v.
              case v of
                VFloat m0 \<Rightarrow>
                  bindE (extreme_loop better e (idxs (i - n) (nat (n - 1))) m0) (\<lambda>r.
                    case r of
                      None \<Rightarrow> Inr Cannot
                    | Some m \<Rightarrow> Inr (Res (VFloat m) n))
              | _ \<Rightarrow> Inr Cannot))"

text \<open>\<^verbatim>\<open>PERCENT\<close>: the percentile in slot \<open>i\<close> goes through the whole test, the count in
  slot \<open>i + 1\<close> only through its NaN and infinity part.\<close>

definition op_PERCENT :: "Expression \<Rightarrow> string \<Rightarrow> int \<Rightarrow> error + opres" where
  "op_PERCENT e token i =
     bindE (scF e i) (\<lambda>percent.
       if bad_count percent then Inl (err_count token percent)
       else bindE (scF e (i + 1)) (\<lambda>c.
         if IsNaN c \<or> IsInf c 1 \<or> IsInf c (- 1) then Inl (err_count token c)
         else (let n = go_int c
               in if n > scratchHead e - 2 then Inl (err_items token n (scratchHead e - 2))
                  else if n < 0 then Inl (Panic ''makeslice: cap out of range'')
                  else bindE (collect e (idxs (i - n) (nat n)) []) (\<lambda>r.
                         case r of
                           None \<Rightarrow> Inr Cannot
                         | Some items0 \<Rightarrow>
                             (let items = sort_Float64s items0;
                                  k = go_int (math_Ceil (fmul (fdiv percent (Fin 100))
                                                           (of_go_int (int (length items)))))
                              in bindE (rd items (k - 1)) (\<lambda>x. Inr (Res (VFloat x) n)))))))"

subsection \<open>The operators that rearrange the stack\<close>

text \<open>The scan for an operator among the slots \<open>as\<close>: a slot whose flag is off is asserted
  to hold a string and looked up in \<open>arity\<close>. \<open>True\<close> is
  \<^verbatim>\<open>cannotSimplify = true; break\<close>.\<close>

fun nonop_check :: "Expression \<Rightarrow> int list \<Rightarrow> error + bool" where
  "nonop_check e [] = Inr False"
| "nonop_check e (a # as) =
     bindE (flag e a) (\<lambda>f.
       if \<not> f then
         bindE (sc e a) (\<lambda>v. bindE (asString v) (\<lambda>s.
           if arity s \<noteq> None then Inr True else nonop_check e as))
       else nonop_check e as)"

text \<open>\<^verbatim>\<open>make([]T, m)\<close> followed by \<^verbatim>\<open>copy\<close> from \<open>xs\<close>.\<close>

definition grow :: "'a list \<Rightarrow> int \<Rightarrow> 'a \<Rightarrow> 'a list" where
  "grow xs m d = take (nat m) (xs @ replicate (nat m) d)"

fun copy_loop :: "Expression \<Rightarrow> int list \<Rightarrow> error + Expression" where
  "copy_loop e [] = Inr e"
| "copy_loop e (a # as) =
     bindE (sc e a) (\<lambda>v. bindE (flag e a) (\<lambda>f. bindE (push e v f) (\<lambda>e'. copy_loop e' as)))"

definition op_COPY :: "Expression \<Rightarrow> string \<Rightarrow> int \<Rightarrow> error + opres" where
  "op_COPY e token i =
     bindE (count_arg e token i) (\<lambda>n.
     bindE (nonop_check e (idxs (i - n) (nat n))) (\<lambda>c.
       if c then Inr Cannot
       else (let e1 = e\<lparr>scratchHead := scratchHead e - 1\<rparr>;
                 e2 = (if scratchHead e1 - 1 + n > int (length (scratch e1))
                       then e1\<lparr>scratch := grow (scratch e1) (scratchHead e1 + n) VNil,
                               isFloat := grow (isFloat e1) (scratchHead e1 + n) False\<rparr>
                       else e1)
             in bindE (copy_loop e2 (idxs (i - n) (nat n))) (\<lambda>e3. Inr (Updated e3)))))"

definition op_INDEX :: "Expression \<Rightarrow> string \<Rightarrow> int \<Rightarrow> error + opres" where
  "op_INDEX e token i =
     bindE (count_arg e token i) (\<lambda>n.
     bindE (nonop_check e (idxs (i - n) (nat n))) (\<lambda>c.
       if c then Inr Cannot
       else (let h = scratchHead e
             in bindE (sc e (h - n - 1)) (\<lambda>v.
                bindE (wr (scratch e) (h - 1) v) (\<lambda>s.
                bindE (flag e (h - n - 1)) (\<lambda>f.
                bindE (wr (isFloat e) (h - 1) f) (\<lambda>fl.
                Inr (Updated (e\<lparr>scratch := s, isFloat := fl\<rparr>)))))))))"

text \<open>A slice expression \<^verbatim>\<open>xs[lo:hi]\<close>. The spare capacity \<^verbatim>\<open>append\<close> may leave
  behind the length is not modelled: \<open>hi\<close> beyond the length is a panic.\<close>

definition slice :: "'a list \<Rightarrow> int \<Rightarrow> int \<Rightarrow> error + 'a list" where
  "slice xs lo hi =
     (if 0 \<le> lo \<and> lo \<le> hi \<and> hi \<le> int (length xs)
      then Inr (take (nat (hi - lo)) (drop (nat lo) xs))
      else Inl (Panic ''slice bounds out of range''))"

text \<open>\<^verbatim>\<open>copy(xs[lo:], ys)\<close>\<close>

definition copy_to :: "'a list \<Rightarrow> int \<Rightarrow> 'a list \<Rightarrow> error + 'a list" where
  "copy_to xs lo ys =
     (if 0 \<le> lo \<and> lo \<le> int (length xs)
      then Inr (take (nat lo) xs @ take (length xs - nat lo) ys
                  @ drop (nat lo + length ys) xs)
      else Inl (Panic ''slice bounds out of range''))"

fun rev_loop :: "Expression \<Rightarrow> int list \<Rightarrow> val list \<Rightarrow> int \<Rightarrow> error + Expression" where
  "rev_loop e [] items itemIdx = Inr e"
| "rev_loop e (a # as) items itemIdx =
     bindE (rd items itemIdx) (\<lambda>v.
     bindE (wr (scratch e) a v) (\<lambda>s.
     bindE (wr (isFloat e) a (is_float64 v)) (\<lambda>fl.
     rev_loop (e\<lparr>scratch := s, isFloat := fl\<rparr>) as items (itemIdx - 1))))"

definition op_REV :: "Expression \<Rightarrow> string \<Rightarrow> int \<Rightarrow> error + opres" where
  "op_REV e token i =
     bindE (count_arg e token i) (\<lambda>n.
     bindE (nonop_check e (idxs (i - n) (nat n))) (\<lambda>c.
       if c then Inr Cannot
       else (let e1 = e\<lparr>scratchHead := scratchHead e - 1\<rparr>
             in bindE (slice (scratch e1) (scratchHead e1 - n) (int (length (scratch e1))))
                  (\<lambda>src.
                bindE (rev_loop e1 (idxs (i - n) (nat n)) (take (nat n) src) (n - 1)) (\<lambda>e2.
                Inr (Updated e2))))))"

fun gather :: "Expression \<Rightarrow> int list \<Rightarrow> error + val list" where
  "gather e [] = Inr []"
| "gather e (a # as) = bindE (sc e a) (\<lambda>v. bindE (gather e as) (\<lambda>vs. Inr (v # vs)))"

text \<open>\<^verbatim>\<open>ROLL\<close>: \<open>n\<close> in slot \<open>i\<close> goes through the whole test, \<open>m\<close> in slot \<open>i + 1\<close> only
  through its NaN and infinity part; both are compared with \<^verbatim>\<open>e.scratchHead-1\<close>. The
  flags of the window are left as they were.\<close>

definition op_ROLL :: "Expression \<Rightarrow> string \<Rightarrow> int \<Rightarrow> error + opres" where
  "op_ROLL e token i =
     bindE (count_arg e token i) (\<lambda>n.
     bindE (scF e (i + 1)) (\<lambda>w.
       if IsNaN w \<or> IsInf w 1 \<or> IsInf w (- 1) then Inl (err_count token w)
       else (let m = go_int w
             in if m > scratchHead e - 1 then Inl (err_items token m (scratchHead e - 1))
                else bindE (nonop_check e (idxs (i - n) (nat n))) (\<lambda>c.
                  if c then Inr Cannot
                  else bindE (gather e (idxs (i - n) (nat n))) (\<lambda>w1.
                    (let items = w1 @ w1 @ w1;
                         first = int (length items) div 3 - m;
                         last = first + n
                     in bindE (slice items first last) (\<lambda>part.
                        bindE (copy_to (scratch e) (i - n) part) (\<lambda>s.
                        Inr (Updated (e\<lparr>scratch := s,
                                          scratchHead := scratchHead e - 2\<rparr>))))))))))"

text \<open>\<^verbatim>\<open>SORT\<close> writes back \<^verbatim>\<open>items[argIdx+indexOfFirstArg-additionalArgumentCount]\<close>.\<close>

fun sort_loop :: "Expression \<Rightarrow> int list \<Rightarrow> f64 list \<Rightarrow> int \<Rightarrow> error + Expression" where
  "sort_loop e [] items off = Inr e"
| "sort_loop e (a # as) items off =
     bindE (rd items (a + off)) (\<lambda>x.
     bindE (wr (scratch e) a (VFloat x)) (\<lambda>s.
     bindE (wr (isFloat e) a True) (\<lambda>fl.
     sort_loop (e\<lparr>scratch := s, isFloat := fl\<rparr>) as items off)))"

definition op_SORT :: "Expression \<Rightarrow> string \<Rightarrow> int \<Rightarrow> error + opres" where
  "op_SORT e token i =
     bindE (count_arg e token i) (\<lambda>n.
     bindE (collect e (idxs (i - n) (nat n)) []) (\<lambda>r.
       case r of
         None \<Rightarrow> Inr Cannot
       | Some items \<Rightarrow>
           bindE (sort_loop e (idxs (i - n) (nat n)) (sort_Float64s items) (i - n)) (\<lambda>e1.
           Inr (Updated (e1\<lparr>scratchHead := scratchHead e1 - 1\<rparr>)))))"

definition op_DEPTH :: "Expression \<Rightarrow> error + opres" where
  "op_DEPTH e = bindE (push e (VInt (scratchHead e)) True) (\<lambda>e'. Inr (Updated e'))"

definition op_DUP :: "Expression \<Rightarrow> error + opres" where
  "op_DUP e =
     bindE (sc e (scratchHead e - 1)) (\<lambda>v.
     bindE (flag e (scratchHead e - 1)) (\<lambda>f.
     bindE (push e v f) (\<lambda>e'. Inr (Updated e'))))"

definition op_EXC :: "Expression \<Rightarrow> int \<Rightarrow> error + opres" where
  "op_EXC e i =
     bindE (sc e (i + 1)) (\<lambda>vb. bindE (sc e i) (\<lambda>va.
     bindE (wr (scratch e) i vb) (\<lambda>s1. bindE (wr s1 (i + 1) va) (\<lambda>s2.
     bindE (flag e (i + 1)) (\<lambda>fb. bindE (flag e i) (\<lambda>fa.
     bindE (wr (isFloat e) i fb) (\<lambda>f1. bindE (wr f1 (i + 1) fa) (\<lambda>f2.
     Inr (Updated (e\<lparr>scratch := s2, isFloat := f2\<rparr>))))))))))"

definition op_POP :: "Expression \<Rightarrow> error + opres" where
  "op_POP e = Inr (Updated (e\<lparr>scratchHead := scratchHead e - 1\<rparr>))"

definition op_IF :: "Expression \<Rightarrow> int \<Rightarrow> error + opres" where
  "op_IF e i =
     bindE (flag e i) (\<lambda>f.
       if f then
         bindE (scF e i) (\<lambda>a.
           if flt a (Fin 0) \<or> fgt a (Fin 0) then bindE (sc e (i + 1)) (\<lambda>v. Inr (Res v 0))
           else bindE (sc e (i + 2)) (\<lambda>v. Inr (Res v 0)))
       else Inr Cannot)"

subsection \<open>\<^verbatim>\<open>TREND\<close>, \<^verbatim>\<open>TRENDNAN\<close> and the dispatch\<close>

definition val_type_name :: "val \<Rightarrow> string" where
  "val_type_name v =
     (case v of VNil \<Rightarrow> ''<nil>'' | VFloat _ \<Rightarrow> ''float64'' | VStr _ \<Rightarrow> ''string''
      | VInt _ \<Rightarrow> ''int'')"

fun trend_loop :: "bool \<Rightarrow> f64 list \<Rightarrow> int list \<Rightarrow> f64 \<Rightarrow> int \<Rightarrow> error + (f64 \<times> int)" where
  "trend_loop skipnan s [] tot used = Inr (tot, used)"
| "trend_loop skipnan s (a # as) tot used =
     bindE (rd s a) (\<lambda>x.
       if skipnan \<and> IsNaN x then trend_loop skipnan s as tot used
       else trend_loop skipnan s as (fadd tot x) (used + 1))"

text \<open>\<open>skipnan\<close> is off for \<^verbatim>\<open>TREND\<close> and on for \<^verbatim>\<open>TRENDNAN\<close>.\<close>

definition op_TREND ::
  "bool \<Rightarrow> (string \<times> binding) list \<Rightarrow> Expression \<Rightarrow> string \<Rightarrow> arityTuple \<Rightarrow> int
     \<Rightarrow> error + opres" where
  "op_TREND skipnan bindings e token opArity i =
     bindE (scF e (i + 1)) (\<lambda>v.
       if IsNaN v \<or> fle v (Fin 0) \<or> IsInf v 1 then Inl (err_count token v)
       else (let n = go_int (math_Ceil (fdiv v (secondsPerInterval e)))
             in bindE (sc e i) (\<lambda>lv.
                  case lv of
                    VStr label \<Rightarrow>
                      (case map_of bindings label of
                         None \<Rightarrow> Inr Cannot
                       | Some (BSeries s) \<Rightarrow>
                           if n > int (length s) then
                             Inl (ErrSyntax
                                    ''%s operand specifies %d values, but only %d available''
                                    [AStr token, AInt n, AInt (int (length s))])
                           else
                             (let e1 = ob_add e label (- 1)
                              in bindE (trend_loop skipnan s
                                          (idxs (int (length s) - n) (nat n)) (Fin 0) 0)
                                   (\<lambda>(tot, used).
                                 bindE (push (e1\<lparr>scratchHead :=
                                                    scratchHead e1 - popCount opArity\<rparr>)
                                          (VFloat (fdiv tot (of_go_int used))) True) (\<lambda>e2.
                                 Inr (Updated e2))))
                       | Some (BFloat _) \<Rightarrow>
                           Inl (ErrSyntax
                                  ''%s operand specifies %q label, which is not a series of numbers: %T''
                                  [AStr token, AStr label, AStr ''[]float64'']))
                  | _ \<Rightarrow>
                      Inl (ErrSyntax ''%s operator requires label but found %T: %v''
                             [AStr token, AStr (val_type_name lv), AVal lv]))))"

definition unary :: "Expression \<Rightarrow> int \<Rightarrow> (f64 \<Rightarrow> f64) \<Rightarrow> error + opres" where
  "unary e i f = bindE (scF e i) (\<lambda>a. num (f a))"

text \<open>The \<^verbatim>\<open>switch token\<close> over the operators; \<open>i\<close> is \<^verbatim>\<open>indexOfFirstArg\<close>. The
  scratch and isFloat slices always have the same length, so that an index in range
  of one is in range of the other. Every key of \<open>arity\<close> has its case, so the last
  branch (no case taken) is never reached from \<open>simplify\<close>.\<close>

definition apply_op ::
  "(string \<times> binding) list \<Rightarrow> Expression \<Rightarrow> string \<Rightarrow> arityTuple \<Rightarrow> int \<Rightarrow> error + opres" where
  "apply_op bindings e token opArity i =
     (if token = ''+'' then two e i op_plus
      else if token = ''-'' then two e i op_minus
      else if token = ''*'' then two e i op_times
      else if token = ''/'' then two e i op_divide
      else if token = ''%'' then two e i op_modulo
      else if token = ''ABS'' then unary e i math_Abs
      else if token = ''ADDNAN'' then
        bindE (scF e i) (\<lambda>a. bindE (scF e (i + 1)) (\<lambda>b. num (op_ADDNAN a b)))
      else if token = ''ATAN'' then unary e i math_Atan
      else if token = ''ATAN2'' then
        bindE (scF e (i + 1)) (\<lambda>y. bindE (scF e i) (\<lambda>x. num (math_Atan2 y x)))
      else if token = ''AVG'' then op_AVG e token i
      else if token = ''CEIL'' then unary e i math_Ceil
      else if token = ''COPY'' then op_COPY e token i
      else if token = ''COS'' then unary e i math_Cos
      else if token = ''DEG2RAD'' then unary e i (\<lambda>a. fdiv (fmul a (Fin pi)) (Fin 180))
      else if token = ''DEPTH'' then op_DEPTH e
      else if token = ''DUP'' then op_DUP e
      else if token = ''EQ'' then two e i (relational False feq (Fin 1))
      else if token = ''EXC'' then op_EXC e i
      else if token = ''EXP'' then unary e i math_Exp
      else if token = ''FLOOR'' then unary e i math_Floor
      else if token = ''GE'' then two e i (relational True fge (Fin 1))
      else if token = ''GT'' then two e i (relational True fgt (Fin 0))
      else if token = ''IF'' then op_IF e i
      else if token = ''INDEX'' then op_INDEX e token i
      else if token = ''ISINF'' then unary e i (\<lambda>a. f01 (IsInf a 1 \<or> IsInf a (- 1)))
      else if token = ''LE'' then two e i (relational True fle (Fin 1))
      else if token = ''LIMIT'' then
        bindE (scF e i) (\<lambda>a. bindE (scF e (i + 1)) (\<lambda>lo. bindE (scF e (i + 2)) (\<lambda>hi.
          num (op_LIMIT a lo hi))))
      else if token = ''LOG'' then unary e i math_Log
      else if token = ''LT'' then two e i (relational True flt (Fin 0))
      else if token = ''MAD'' then op_MEDIAN mad e token i
      else if token = ''MAX'' then two e i (extremum True math_Max)
      else if token = ''MAXNAN'' then two e i (extremum False math_Max)
      else if token = ''MEDIAN'' then op_MEDIAN median e token i
      else if token = ''MIN'' then two e i (extremum True math_Min)
      else if token = ''MINNAN'' then two e i (extremum False math_Min)
      else if token = ''NE'' then two e i (relational False fne (Fin 0))
      else if token = ''PERCENT'' then op_PERCENT e token i
      else if token = ''POP'' then op_POP e
      else if token = ''POW'' then two e i op_POW
      else if token = ''RAD2DEG'' then unary e i (\<lambda>a. fdiv (fmul a (Fin 180)) (Fin pi))
      else if token = ''REV'' then op_REV e token i
      else if token = ''ROLL'' then op_ROLL e token i
      else if token = ''SIN'' then unary e i math_Sin
      else if token = ''SMAX'' then op_SMAX fgt e token i
      else if token = ''SMIN'' then op_SMAX flt e token i
      else if token = ''SORT'' then op_SORT e token i
      else if token = ''SQRT'' then unary e i math_Sqrt
      else if token = ''STDEV'' then op_STDEV e token i
      else if token = ''TREND'' then op_TREND False bindings e token opArity i
      else if token = ''TRENDNAN'' then op_TREND True bindings e token opArity i
      else if token = ''UN'' then unary e i (\<lambda>a. f01 (IsNaN a))
      else Inr (Res VNil 0))"

subsection \<open>simplify\<close>

fun float_check :: "Expression \<Rightarrow> int list \<Rightarrow> error + bool" where
  "float_check e [] = Inr False"
| "float_check e (a # as) =
     bindE (sc e a) (\<lambda>v. if \<not> is_float64 v then Inr True else float_check e as)"

definition err_operands :: "string \<Rightarrow> int \<Rightarrow> error" where
  "err_operands token n =
     ErrSyntax ''not enough parameters: operator %s requires %d operands''
       [AStr token, AInt n]"

text \<open>An operator token: the operand count, the two scans, the \<^verbatim>\<open>switch\<close>, and what is
  done with its outcome.\<close>

definition simplify_operator ::
  "(string \<times> binding) list \<Rightarrow> Expression \<Rightarrow> string \<Rightarrow> arityTuple \<Rightarrow> error + Expression" where
  "simplify_operator bindings e token opArity =
     (if scratchHead e < popCount opArity then Inl (err_operands token (popCount opArity))
      else
        (let h = scratchHead e; i = h - popCount opArity
         in bindE (float_check e (idxs (h - floatOffset opArity) (nat (floatCount opArity))))
              (\<lambda>c1.
            bindE (nonop_check e
                     (idxs (h - nonOperatorOffset opArity) (nat (nonOperatorCount opArity))))
              (\<lambda>c2.
              if c1 \<or> c2 then push e (VStr token) False
              else bindE (apply_op bindings e token opArity i) (\<lambda>r.
                     case r of
                       Cannot \<Rightarrow> push e (VStr token) False
                     | Updated e' \<Rightarrow> Inr e'
                     | Res result n \<Rightarrow>
                         push (e\<lparr>scratchHead := h - (popCount opArity + n)\<rparr>) result
                           (is_float64 result))))))"

definition simplify_string ::
  "lib \<Rightarrow> tctx \<Rightarrow> (string \<times> binding) list \<Rightarrow> Expression \<Rightarrow> string \<Rightarrow> error + Expression" where
  "simplify_string L T bindings e token =
     (if token = ''DAY'' then push e (VFloat (Fin 86400)) True
      else if token = ''HOUR'' then push e (VFloat (Fin 3600)) True
      else if token = ''INF'' then push e (VFloat PInf) True
      else if token = ''LTIME'' then time_token T e token (jTimeSeconds T)
      else if token = ''MINUTE'' then push e (VFloat (Fin 60)) True
      else if token = ''NEGINF'' then push e (VFloat NInf) True
      else if token = ''NEWDAY'' then
        time_token T e token (isFirstOfDay (jTimeSeconds T) (secondsPerInterval e))
      else if token = ''NEWMONTH'' then
        time_token T e token
          (if Local_Day L (jTime T) = 1
           then isFirstOfDay (jTimeSeconds T) (secondsPerInterval e) else Fin 0)
      else if token = ''NEWWEEK'' then
        time_token T e token
          (if Local_Weekday L (jTime T) = 0
           then isFirstOfDay (jTimeSeconds T) (secondsPerInterval e) else Fin 0)
      else if token = ''NEWYEAR'' then
        time_token T e token
          (if Local_Month L (jTime T) = 1 \<and> Local_Day L (jTime T) = 1
           then isFirstOfDay (jTimeSeconds T) (secondsPerInterval e) else Fin 0)
      else if token = ''NOW'' then
        (if performTimeSubstitutions e then push e (VFloat (nowSeconds T)) True
         else push (ob_add e token 1) (VStr token) False)
      else if token = ''STEPWIDTH'' then push e (VFloat (secondsPerInterval e)) True
      else if token = ''TIME'' then time_token T e token (zTimeSeconds T)
      else if token = ''UNKN'' then push e (VFloat NaN) True
      else if token = ''WEEK'' then push e (VFloat (Fin 604800)) True
      else if token = [] then Inl (ErrSyntax ''empty token'' [])
      else
        (case arity token of
           Some opArity \<Rightarrow> simplify_operator bindings e token opArity
         | None \<Rightarrow>
             (case ParseFloat L token of
                Some v \<Rightarrow> push e (VFloat v) True
              | None \<Rightarrow>
                  (case map_of bindings token of
                     Some (BFloat v) \<Rightarrow> push e (VFloat v) True
                   | Some (BSeries _) \<Rightarrow> push (ob_add e token 1) (VStr token) False
                   | None \<Rightarrow> push (ob_add e token 1) (VStr token) False))))"

text \<open>One token of the stored program; \<open>tokIdx\<close> is its position.\<close>

definition simplify_token ::
  "lib \<Rightarrow> tctx \<Rightarrow> (string \<times> binding) list \<Rightarrow> Expression \<Rightarrow> int \<Rightarrow> val
     \<Rightarrow> error + Expression" where
  "simplify_token L T bindings e tokIdx tok =
     (case tok of
        VFloat token \<Rightarrow> push e (VFloat token) True
      | VStr token \<Rightarrow> simplify_string L T bindings e token
      | _ \<Rightarrow> Inl (ErrSyntax ''unexpected token type at position %d: %v''
                    [AInt (tokIdx + 1), AVal tok]))"

text \<open>The loop over \<^verbatim>\<open>e.tokens\<close>. The method works on the receiver itself, so it
  gives back the receiver as it leaves it, together with the error if there is one;
  after an error (or a panic) that is the receiver as it was before the failing token.\<close>

fun simplify_loop ::
  "lib \<Rightarrow> tctx \<Rightarrow> (string \<times> binding) list \<Rightarrow> Expression \<Rightarrow> int \<Rightarrow> val list
     \<Rightarrow> error option \<times> Expression" where
  "simplify_loop L T bindings e tokIdx [] = (None, e)"
| "simplify_loop L T bindings e tokIdx (tok # toks) =
     (case simplify_token L T bindings e tokIdx tok of
        Inl err \<Rightarrow> (Some err, e)
      | Inr e' \<Rightarrow> simplify_loop L T bindings e' (tokIdx + 1) toks)"

definition simplify ::
  "lib \<Rightarrow> (string \<times> raw) list \<Rightarrow> Expression \<Rightarrow> error option \<times> Expression" where
  "simplify L bindings0 e =
     (case coerceMapValuesToFloat64 bindings0 of
        Inl err \<Rightarrow> (Some err, e)
      | Inr bindings \<Rightarrow>
          (let e1 = e\<lparr>scratchHead := 0, openBindings := []\<rparr>
           in case time_setup L e1 bindings of
                Inl err \<Rightarrow> (Some err, e1)
              | Inr T \<Rightarrow> simplify_loop L T bindings e1 0 (tokens e1)))"

subsection \<open>Evaluate and Partial\<close>

text \<open>\<^verbatim>\<open>Evaluate\<close> has a pointer receiver: the second component is the receiver after
  the call. The open bindings are listed in the order of the association list (Go
  ranges over its map in no fixed order).\<close>

definition Evaluate ::
  "lib \<Rightarrow> (string \<times> raw) list \<Rightarrow> Expression \<Rightarrow> (error + f64) \<times> Expression" where
  "Evaluate L bindings e =
     (case simplify L bindings e of
        (Some err, e') \<Rightarrow> (Inl err, e')
      | (None, e') \<Rightarrow>
          (let names = map fst (filter (\<lambda>(k, v). v > 0) (openBindings e'))
           in if names \<noteq> [] then (Inl (ErrOpenBindings names), e')
              else if scratchHead e' \<noteq> 1 then
                (Inl (ErrSyntax ''extra parameters: %v'' [AVals (scratch e')]), e')
              else (case rd (scratch e') 0 of
                      Inl err \<Rightarrow> (Inl err, e')
                    | Inr (VFloat result) \<Rightarrow> (Inr result, e')
                    | Inr v \<Rightarrow> (Inl (ExpectedFloat v), e'))))"

text \<open>\<^verbatim>\<open>Partial\<close> builds a new Expression with slices of its own and simplifies that
  one; the result is the new Expression.\<close>

definition Partial :: "lib \<Rightarrow> (string \<times> raw) list \<Rightarrow> Expression \<Rightarrow> error + Expression" where
  "Partial L bindings e =
     (if scratchSize e < 0 then Inl (Panic ''makeslice: len out of range'')
      else
        (let exp = \<lparr>delimiter = delimiter e, openBindings = [],
                    secondsPerInterval = secondsPerInterval e, tokens = tokens e,
                    performTimeSubstitutions = False, scratchSize = scratchSize e,
                    scratchHead = 0, scratch = replicate (nat (scratchSize e)) VNil,
                    isFloat = replicate (nat (scratchSize e)) False\<rparr>
         in case simplify L bindings exp of
              (Some err, _) \<Rightarrow> Inl err
            | (None, exp1) \<Rightarrow>
                bindE (slice (tokens exp1) 0 (scratchHead exp1)) (\<lambda>toks.
                  Inr (exp1\<lparr>performTimeSubstitutions := performTimeSubstitutions e,
                            tokens := take (length toks) (scratch exp1)
                                        @ drop (length (scratch exp1)) toks\<rparr>))))"

subsection \<open>Texts: String and the error messages\<close>

fun show_nat :: "nat \<Rightarrow> string" where
  "show_nat n =
     (if n < 10 then [''0123456789'' ! n]
      else show_nat (n div 10) @ [''0123456789'' ! (n mod 10)])"

definition show_int :: "int \<Rightarrow> string" where
  "show_int i = (if i < 0 then CHR ''-'' # show_nat (nat (- i)) else show_nat (nat i))"

fun join :: "string \<Rightarrow> string list \<Rightarrow> string" where
  "join sep [] = []"
| "join sep [s] = s"
| "join sep (s # t # ss) = s @ sep @ join sep (t # ss)"

text \<open>\<^verbatim>\<open>%v\<close> of a float64 and of an \<^verbatim>\<open>interface{}\<close>.\<close>

definition show_f64 :: "lib \<Rightarrow> f64 \<Rightarrow> string" where
  "show_f64 L f =
     (case f of NaN \<Rightarrow> ''NaN'' | PInf \<Rightarrow> ''+Inf'' | NInf \<Rightarrow> ''-Inf'' | Fin r \<Rightarrow> Sprint_float L r)"

definition show_val :: "lib \<Rightarrow> val \<Rightarrow> string" where
  "show_val L v =
     (case v of VNil \<Rightarrow> ''<nil>'' | VFloat f \<Rightarrow> show_f64 L f | VStr s \<Rightarrow> s
      | VInt n \<Rightarrow> show_int n)"

definition show_arg :: "lib \<Rightarrow> char \<Rightarrow> arg \<Rightarrow> string" where
  "show_arg L verb a =
     (case a of
        AStr s \<Rightarrow> (if verb = CHR ''q'' then quoted s else s)
      | AInt n \<Rightarrow> show_int n
      | AFloat f \<Rightarrow> (if verb = CHR ''d'' then ''%!d(float64='' @ show_f64 L f @ '')''
                     else show_f64 L f)
      | AVal v \<Rightarrow> show_val L v
      | AVals vs \<Rightarrow> ''['' @ join '' '' (map (show_val L) vs) @ '']'')"

text \<open>\<^verbatim>\<open>fmt.Sprintf\<close> for the formats of this package: each verb is one character
  after \<^verbatim>\<open>%\<close> and takes the next argument.\<close>

fun Sprintf :: "lib \<Rightarrow> string \<Rightarrow> arg list \<Rightarrow> string" where
  "Sprintf L [] args = []"
| "Sprintf L [c] args = [c]"
| "Sprintf L (c # d # fmt) args =
     (if c = CHR ''%'' then
        (case args of
           [] \<Rightarrow> ''%!'' @ [d] @ ''(MISSING)'' @ Sprintf L fmt []
         | a # as \<Rightarrow> show_arg L d a @ Sprintf L fmt as)
      else c # Sprintf L (d # fmt) args)"

text \<open>The \<^verbatim>\<open>Error\<close> methods. A panic is not an error value; it is given its text.\<close>

definition Error :: "lib \<Rightarrow> error \<Rightarrow> string" where
  "Error L err =
     (case err of
        ErrSyntax fmt args \<Rightarrow>
          (let message = Sprintf L fmt args
           in ''syntax error '' @ (if message \<noteq> [] then '': '' @ message else message))
      | ErrSyntaxLit message \<Rightarrow> ''syntax error '' @ message
      | ErrOpenBindings names \<Rightarrow> ''open bindings: '' @ join '','' names
      | ErrBadBindingType t \<Rightarrow> ''bad binding type for '' @ t
      | ExpectedFloat v \<Rightarrow> ''expected float: '' @ val_type_name v
      | Panic s \<Rightarrow> s)"

definition token_string :: "lib \<Rightarrow> val \<Rightarrow> string" where
  "token_string L v =
     (case v of
        VFloat NaN \<Rightarrow> ''UNKN''
      | VFloat PInf \<Rightarrow> ''INF''
      | VFloat NInf \<Rightarrow> ''NEGINF''
      | _ \<Rightarrow> show_val L v)"

definition String :: "lib \<Rightarrow> Expression \<Rightarrow> string" where
  "String L e = join [delimiter e] (map (token_string L) (tokens e))"

subsection \<open>New\<close>

text \<open>\<^verbatim>\<open>strings.Split\<close> on a one-character separator (a delimiter is modelled as one
  \<open>char\<close>).\<close>

fun split_on :: "char \<Rightarrow> string \<Rightarrow> string list" where
  "split_on d [] = [[]]"
| "split_on d (c # cs) =
     (if c = d then [] # split_on d cs
      else (case split_on d cs of w # ws \<Rightarrow> (c # w) # ws | [] \<Rightarrow> [[c]]))"

datatype ExpressionConfigurator = Delimiter char | SecondsPerInterval f64

definition apply_setter :: "ExpressionConfigurator \<Rightarrow> Expression \<Rightarrow> error + Expression" where
  "apply_setter setter e =
     (case setter of
        Delimiter someDelimiter \<Rightarrow>
          (if arity [someDelimiter] \<noteq> None
           then Inl (ErrSyntax ''cannot use %c operator for delimiter'' [AStr [someDelimiter]])
           else Inr (e\<lparr>delimiter := someDelimiter\<rparr>))
      | SecondsPerInterval seconds \<Rightarrow>
          (if fle seconds (Fin 0)
           then Inl (ErrSyntax ''cannot use %d seconds as interval'' [AFloat seconds])
           else Inr (e\<lparr>secondsPerInterval := seconds\<rparr>)))"

fun apply_setters :: "ExpressionConfigurator list \<Rightarrow> Expression \<Rightarrow> error + Expression" where
  "apply_setters [] e = Inr e"
| "apply_setters (setter # setters) e = bindE (apply_setter setter e) (apply_setters setters)"

definition time_names :: "string list" where
  "time_names = [''NOW'', ''TIME'', ''LTIME'', ''NEWDAY'', ''NEWWEEK'', ''NEWMONTH'', ''NEWYEAR'']"

definition New :: "lib \<Rightarrow> string \<Rightarrow> ExpressionConfigurator list \<Rightarrow> error + Expression" where
  "New L someExpression setters =
     (if someExpression = [] then Inl (ErrSyntaxLit ''empty expression'')
      else
        bindE (apply_setters setters
                 \<lparr>delimiter = CHR '','', openBindings = [], secondsPerInterval = Fin 300,
                  tokens = [], performTimeSubstitutions = False, scratchSize = 0,
                  scratchHead = 0, scratch = [], isFloat = []\<rparr>) (\<lambda>e.
          (let toks = split_on (delimiter e) someExpression;
               size = length toks + length (filter (\<lambda>t. t = ''DUP'') toks)
           in Partial L []
                (e\<lparr>tokens := map VStr toks,
                   performTimeSubstitutions := list_ex (\<lambda>t. t \<in> set time_names) toks,
                   scratchSize := int size,
                   scratch := replicate size VNil,
                   isFloat := replicate size False\<rparr>))))"

subsection \<open>Expressions behind pointers\<close>

text \<open>Callers hold \<^verbatim>\<open>*Expression\<close>. A heap is the list of the Expressions allocated so
  far and a pointer is an index into it: \<^verbatim>\<open>Evaluate\<close> writes its receiver back,
  \<^verbatim>\<open>Partial\<close> allocates its result.\<close>

definition Evaluate_at ::
  "lib \<Rightarrow> (string \<times> raw) list \<Rightarrow> Expression list \<Rightarrow> nat \<Rightarrow> (error + f64) \<times> Expression list" where
  "Evaluate_at L bindings heap p =
     (case Evaluate L bindings (heap ! p) of (r, e') \<Rightarrow> (r, heap[p := e']))"

definition Partial_at ::
  "lib \<Rightarrow> (string \<times> raw) list \<Rightarrow> Expression list \<Rightarrow> nat \<Rightarrow> (error + nat) \<times> Expression list" where
  "Partial_at L bindings heap p =
     (case Partial L bindings (heap ! p) of
        Inl err \<Rightarrow> (Inl err, heap)
      | Inr e1 \<Rightarrow> (Inr (length heap), heap @ [e1]))"

subsection \<open>A library instance for closed examples\<close>

text \<open>For the examples below the library is instantiated: \<open>ParseFloat\<close> reads a text of
  decimal digits (as \<^verbatim>\<open>strconv.ParseFloat\<close> does) and refuses everything else,
  \<open>Sprint_float\<close> prints an integral value, the clock is at the epoch in UTC, a
  Thursday and the first of January.\<close>

definition is_digit :: "char \<Rightarrow> bool" where
  "is_digit c = (c \<in> set ''0123456789'')"

definition digit_value :: "char \<Rightarrow> nat" where
  "digit_value c = length (takeWhile (\<lambda>d. d \<noteq> c) ''0123456789'')"

definition parse_digits :: "string \<Rightarrow> f64 option" where
  "parse_digits s =
     (if s \<noteq> [] \<and> list_all is_digit s
      then Some (Fin (real (foldl (\<lambda>n c. 10 * n + digit_value c) 0 s)))
      else None)"

definition example_lib :: lib where
  "example_lib =
     \<lparr>ParseFloat = parse_digits, Sprint_float = (\<lambda>r. show_int \<lfloor>r\<rfloor>), Now_Unix = 0,
      Zone_offset = (\<lambda>t. 0), Local_Day = (\<lambda>t. 1), Local_Weekday = (\<lambda>t. 4),
      Local_Month = (\<lambda>t. 1)\<rparr>"

subsection \<open>Notions used in the properties\<close>

text \<open>The receiver after an operator has replaced the top \<open>k\<close> items of the stack by the
  one value \<open>v\<close>.\<close>

definition folded :: "Expression \<Rightarrow> int \<Rightarrow> val \<Rightarrow> Expression" where
  "folded e k v =
     e\<lparr>scratchHead := scratchHead e - k + 1,
       scratch := (scratch e)[nat (scratchHead e - k) := v],
       isFloat := (isFloat e)[nat (scratchHead e - k) := is_float64 v]\<rparr>"

text \<open>The two top items of the stack are the numbers \<open>a\<close> (below) and \<open>b\<close> (on top).\<close>

definition floats2 :: "Expression \<Rightarrow> f64 \<Rightarrow> f64 \<Rightarrow> bool" where
  "floats2 e a b =
     (2 \<le> scratchHead e \<and> scratchHead e \<le> int (length (scratch e))
      \<and> length (isFloat e) = length (scratch e)
      \<and> scratch e ! nat (scratchHead e - 2) = VFloat a
      \<and> scratch e ! nat (scratchHead e - 1) = VFloat b
      \<and> isFloat e ! nat (scratchHead e - 2) \<and> isFloat e ! nat (scratchHead e - 1))"

text \<open>For closed examples: an Expression in the middle of \<open>simplify\<close> whose stack holds
  \<open>vs\<close>, with \<open>spare\<close> free slots above, and the time variables of a run without time
  substitution.\<close>

definition on_stack :: "val list \<Rightarrow> nat \<Rightarrow> Expression" where
  "on_stack vs spare =
     \<lparr>delimiter = CHR '','', openBindings = [], secondsPerInterval = Fin 300, tokens = [],
      performTimeSubstitutions = False, scratchSize = int (length vs + spare),
      scratchHead = int (length vs), scratch = vs @ replicate spare VNil,
      isFloat = map is_float64 vs @ replicate spare False\<rparr>"

definition no_time :: tctx where
  "no_time = \<lparr>isTimeSet = False, nowSeconds = Fin 0, jTimeSeconds = Fin 0,
               zTimeSeconds = Fin 0, jTime = 0\<rparr>"

section \<open>Properties\<close>

subsection \<open>Too few operands\<close>

lemma arity_not_constant:
  assumes "arity token = Some a"
  shows "token \<noteq> ''DAY'' \<and> token \<noteq> ''HOUR'' \<and> token \<noteq> ''INF'' \<and> token \<noteq> ''LTIME''
       \<and> token \<noteq> ''MINUTE'' \<and> token \<noteq> ''NEGINF'' \<and> token \<noteq> ''NEWDAY''
       \<and> token \<noteq> ''NEWMONTH'' \<and> token \<noteq> ''NEWWEEK'' \<and> token \<noteq> ''NEWYEAR''
       \<and> token \<noteq> ''NOW'' \<and> token \<noteq> ''STEPWIDTH'' \<and> token \<noteq> ''TIME''
       \<and> token \<noteq> ''UNKN'' \<and> token \<noteq> ''WEEK'' \<and> token \<noteq> []"
proof -
  have "token \<in> set (map fst arity_table)"
    using assms unfolding arity_def by (metis map_of_eq_None_iff option.distinct(1) set_map)
  thus ?thesis unfolding arity_table_def by auto
qed

lemma simplify_string_operator:
  assumes "arity token = Some a"
  shows "simplify_string L T bindings e token = simplify_operator bindings e token a"
  using arity_not_constant[OF assms] assms by (simp add: simplify_string_def)

lemma Sprintf_operands:
  "Sprintf L ''not enough parameters: operator %s requires %d operands'' [AStr token, AInt n]
     = ''not enough parameters: operator '' @ token @ '' requires '' @ show_int n @ '' operands''"
  by (simp add: show_arg_def)

text \<open>
  Claim C9. For every operator of the table: when the stack holds fewer items than the
  operator's \<open>popCount\<close>, simplification stops at that token with the syntax error
  ``not enough parameters: operator <name> requires <n> operands'', and the receiver is
  as it was before the token.
\<close>

theorem C9_not_enough_parameters:
  assumes "arity token = Some opArity" and "scratchHead e < popCount opArity"
  shows "simplify_loop L T bindings e tokIdx (VStr token # toks)
           = (Some (err_operands token (popCount opArity)), e)
       \<and> Error L (err_operands token (popCount opArity))
           = ''syntax error : not enough parameters: operator '' @ token @ '' requires ''
               @ show_int (popCount opArity) @ '' operands''"
  using assms
  by (simp add: simplify_token_def simplify_string_operator simplify_operator_def
      Error_def err_operands_def show_arg_def)

theorem C9_witness:
  "arity ''DUP'' = Some (ArityTuple 1 0 0 1 1)
   \<and> simplify_loop example_lib
         \<lparr>isTimeSet = False, nowSeconds = Fin 0, jTimeSeconds = Fin 0, zTimeSeconds = Fin 0,
          jTime = 0\<rparr> []
         \<lparr>delimiter = CHR '','', openBindings = [], secondsPerInterval = Fin 300,
          tokens = [VStr ''DUP''], performTimeSubstitutions = False, scratchSize = 2,
          scratchHead = 0, scratch = [VNil, VNil], isFloat = [False, False]\<rparr>
         0 [VStr ''DUP'']
       = (Some (err_operands ''DUP'' 1),
          \<lparr>delimiter = CHR '','', openBindings = [], secondsPerInterval = Fin 300,
           tokens = [VStr ''DUP''], performTimeSubstitutions = False, scratchSize = 2,
           scratchHead = 0, scratch = [VNil, VNil], isFloat = [False, False]\<rparr>)
   \<and> Error example_lib (err_operands ''DUP'' 1)
       = ''syntax error : not enough parameters: operator DUP requires 1 operands''"
  using C9_not_enough_parameters [of "''DUP''" "ArityTuple 1 0 0 1 1"
      "\<lparr>delimiter = CHR '','', openBindings = [], secondsPerInterval = Fin 300,
        tokens = [VStr ''DUP''], performTimeSubstitutions = False, scratchSize = 2,
        scratchHead = 0, scratch = [VNil, VNil], isFloat = [False, False]\<rparr>"
      example_lib
      "\<lparr>isTimeSet = False, nowSeconds = Fin 0, jTimeSeconds = Fin 0, zTimeSeconds = Fin 0,
        jTime = 0\<rparr>" "[]" 0 "[]"]
  by (simp add: arity_def arity_table_def show_int_def)


subsection \<open>The relational operators\<close>

lemma idxs_2: "idxs lo 2 = [lo, lo + 1]"
  by (simp add: numeral_2_eq_2)

lemma two_floats2:
  assumes "floats2 e a b"
  shows "two e (scratchHead e - 2) k = k True True (VFloat a) (VFloat b)"
  using assms by (simp add: floats2_def two_def bindE_def flag_def sc_def rd_def)

lemma nonop_floats2:
  assumes "floats2 e a b"
  shows "nonop_check e (idxs (scratchHead e - 2) (nat 2)) = Inr False"
  using assms by (simp add: idxs_2 floats2_def bindE_def flag_def rd_def)

lemma push_folded:
  assumes "k \<le> scratchHead e" "scratchHead e \<le> int (length (scratch e))"
    "length (isFloat e) = length (scratch e)" "0 < k"
  shows "push (e\<lparr>scratchHead := scratchHead e - k\<rparr>) v (is_float64 v) = Inr (folded e k v)"
  using assms by (simp add: push_def wr_def bindE_def folded_def)

lemma binary_fold:
  assumes "floats2 e a b" and "arity token = Some (ArityTuple 2 0 0 2 2)"
    and "apply_op bindings e token (ArityTuple 2 0 0 2 2) (scratchHead e - 2) = num r"
  shows "simplify_string L T bindings e token = Inr (folded e 2 (VFloat r))"
proof -
  have p: "push (e\<lparr>scratchHead := scratchHead e - 2\<rparr>) (VFloat r) (is_float64 (VFloat r))
             = Inr (folded e 2 (VFloat r))"
    using assms(1) by (intro push_folded) (simp_all add: floats2_def)
  have h: "\<not> scratchHead e < 2" using assms(1) by (simp add: floats2_def)
  show ?thesis
    using p h nonop_floats2[OF assms(1)] assms(3)
    by (simp add: simplify_string_operator[OF assms(2)] simplify_operator_def bindE_def num_def)
qed

text \<open>
  Claim C1. With two numbers \<open>a\<close> and \<open>b\<close> on top of the stack, \<^verbatim>\<open>GE\<close>, \<^verbatim>\<open>GT\<close>,
  \<^verbatim>\<open>LE\<close> and \<^verbatim>\<open>LT\<close> replace them by NaN when either is NaN and by the 0/1 outcome of the
  comparison otherwise; \<^verbatim>\<open>EQ\<close> and \<^verbatim>\<open>NE\<close> replace them by the 0/1 outcome of the float
  equality, where NaN is equal to nothing: a NaN operand gives 0 for \<^verbatim>\<open>EQ\<close> and 1 for
  \<^verbatim>\<open>NE\<close>, never NaN.
\<close>

theorem C1_relational:
  assumes "floats2 e a b"
  shows "simplify_string L T bindings e ''GE''
           = Inr (folded e 2 (VFloat (if IsNaN a \<or> IsNaN b then NaN else f01 (fge a b))))
       \<and> simplify_string L T bindings e ''GT''
           = Inr (folded e 2 (VFloat (if IsNaN a \<or> IsNaN b then NaN else f01 (fgt a b))))
       \<and> simplify_string L T bindings e ''LE''
           = Inr (folded e 2 (VFloat (if IsNaN a \<or> IsNaN b then NaN else f01 (fle a b))))
       \<and> simplify_string L T bindings e ''LT''
           = Inr (folded e 2 (VFloat (if IsNaN a \<or> IsNaN b then NaN else f01 (flt a b))))
       \<and> simplify_string L T bindings e ''EQ''
           = Inr (folded e 2 (VFloat (if a = NaN \<or> b = NaN then Fin 0 else f01 (a = b))))
       \<and> simplify_string L T bindings e ''NE''
           = Inr (folded e 2 (VFloat (if a = NaN \<or> b = NaN then Fin 1 else f01 (a \<noteq> b))))"
proof -
  have ge: "simplify_string L T bindings e ''GE''
           = Inr (folded e 2 (VFloat (if IsNaN a \<or> IsNaN b then NaN else f01 (fge a b))))"
    by (rule binary_fold[OF assms])
       (simp_all add: arity_def arity_table_def apply_op_def two_floats2[OF assms]
          relational_def bindE_def asFloat_def num_def)
  have gt: "simplify_string L T bindings e ''GT''
           = Inr (folded e 2 (VFloat (if IsNaN a \<or> IsNaN b then NaN else f01 (fgt a b))))"
    by (rule binary_fold[OF assms])
       (simp_all add: arity_def arity_table_def apply_op_def two_floats2[OF assms]
          relational_def bindE_def asFloat_def num_def)
  have le: "simplify_string L T bindings e ''LE''
           = Inr (folded e 2 (VFloat (if IsNaN a \<or> IsNaN b then NaN else f01 (fle a b))))"
    by (rule binary_fold[OF assms])
       (simp_all add: arity_def arity_table_def apply_op_def two_floats2[OF assms]
          relational_def bindE_def asFloat_def num_def)
  have lt: "simplify_string L T bindings e ''LT''
           = Inr (folded e 2 (VFloat (if IsNaN a \<or> IsNaN b then NaN else f01 (flt a b))))"
    by (rule binary_fold[OF assms])
       (simp_all add: arity_def arity_table_def apply_op_def two_floats2[OF assms]
          relational_def bindE_def asFloat_def num_def)
  have eq: "simplify_string L T bindings e ''EQ''
           = Inr (folded e 2 (VFloat (if a = NaN \<or> b = NaN then Fin 0 else f01 (a = b))))"
    by (rule binary_fold[OF assms])
       (simp_all add: arity_def arity_table_def apply_op_def two_floats2[OF assms]
          relational_def bindE_def asFloat_def num_def feq_def f01_def)
  have ne: "simplify_string L T bindings e ''NE''
           = Inr (folded e 2 (VFloat (if a = NaN \<or> b = NaN then Fin 1 else f01 (a \<noteq> b))))"
    by (rule binary_fold[OF assms])
       (simp_all add: arity_def arity_table_def apply_op_def two_floats2[OF assms]
          relational_def bindE_def asFloat_def num_def feq_def fne_def f01_def)
  show ?thesis using ge gt le lt eq ne by blast
qed


theorem C1_witness:
  "floats2 (on_stack [VFloat NaN, VFloat (Fin 1)] 0) NaN (Fin 1)
   \<and> simplify_string example_lib no_time [] (on_stack [VFloat NaN, VFloat (Fin 1)] 0) ''GE''
       = Inr (folded (on_stack [VFloat NaN, VFloat (Fin 1)] 0) 2 (VFloat NaN))
   \<and> simplify_string example_lib no_time [] (on_stack [VFloat NaN, VFloat (Fin 1)] 0) ''EQ''
       = Inr (folded (on_stack [VFloat NaN, VFloat (Fin 1)] 0) 2 (VFloat (Fin 0)))
   \<and> simplify_string example_lib no_time [] (on_stack [VFloat NaN, VFloat (Fin 1)] 0) ''NE''
       = Inr (folded (on_stack [VFloat NaN, VFloat (Fin 1)] 0) 2 (VFloat (Fin 1)))"
  using C1_relational [of "on_stack [VFloat NaN, VFloat (Fin 1)] 0" NaN "Fin 1"
      example_lib no_time "[]"]
  by (simp add: floats2_def on_stack_def is_float64_def IsNaN_def)

end
